theory Spec2Isabelle
  imports Main "HOL-Library.AList"
begin

section \<open>Python values and exceptions\<close>

text \<open>
  The library is Python. Arguments of unknown type are values of \<open>pyval\<close>; the
  truth value Python gives them (\<^verbatim>\<open>bool(x)\<close>) is \<open>truthy\<close>.
\<close>

datatype pyval =
    PyNone
  | PyBool bool
  | PyInt int
  | PyStr string
  | PyList "pyval list"

fun truthy :: "pyval \<Rightarrow> bool" where
  "truthy PyNone = False"
| "truthy (PyBool b) = b"
| "truthy (PyInt i) = (i \<noteq> 0)"
| "truthy (PyStr s) = (s \<noteq> [])"
| "truthy (PyList xs) = (xs \<noteq> [])"

text \<open>\<^verbatim>\<open>any(xs)\<close>: some element is truthy.\<close>

fun py_any :: "pyval list \<Rightarrow> bool" where
  "py_any [] = False"
| "py_any (x # xs) = (truthy x \<or> py_any xs)"

text \<open>
  Exceptions raised inside the date parsing library: \<open>ValueError\<close> is the one the
  constructors catch, every other one is \<open>OtherLibraryError\<close>.
\<close>

datatype lib_exn = ValueError | OtherLibraryError

text \<open>
  The exceptions a call of the library can end with. \<open>MaintainerError\<close> carries the
  message template of the \<^verbatim>\<open>raise\<close> statement (the source formats its arguments
  into it); \<open>NameError\<close> and \<open>AttributeError\<close> carry the name that is not bound;
  \<open>TypeError\<close> carries the operator that the operands do not support;
  \<open>Uncaught\<close> is an exception of the parsing library that no handler catches.
\<close>

datatype error =
    MaintainerError string
  | NameError string
  | AttributeError string
  | TypeError string
  | Uncaught lib_exn

section \<open>Subterm\<close>

record Subterm =
  subterms :: "bool list"

text \<open>
  \<^verbatim>\<open>Subterm.__init__(self, *subterms)\<close>: the argument tuple is the list \<open>args\<close>.
\<close>

definition Subterm_init :: "pyval list \<Rightarrow> error + Subterm" where
  "Subterm_init args =
     (if args = [] then Inl (MaintainerError ''Subterm got no arguments'')
      else if \<not> py_any args then Inl (MaintainerError ''Subterm got no truthy arguments: {}'')
      else Inr \<lparr>subterms = map truthy args\<rparr>)"

definition FullTerm :: "error + Subterm" where
  "FullTerm = Subterm_init [PyBool True]"

definition FirstHalfTerm :: "error + Subterm" where
  "FirstHalfTerm = Subterm_init [PyBool True, PyBool False]"

definition SecondHalfTerm :: "error + Subterm" where
  "SecondHalfTerm = Subterm_init [PyBool False, PyBool True]"

definition FirstThirdTerm :: "error + Subterm" where
  "FirstThirdTerm = Subterm_init [PyBool True, PyBool False, PyBool False]"

definition MiddleThirdTerm :: "error + Subterm" where
  "MiddleThirdTerm = Subterm_init [PyBool False, PyBool True, PyBool False]"

definition LastThirdTerm :: "error + Subterm" where
  "LastThirdTerm = Subterm_init [PyBool False, PyBool False, PyBool True]"

definition FirstAndMiddleThirdTerms :: "error + Subterm" where
  "FirstAndMiddleThirdTerms = Subterm_init [PyBool True, PyBool True, PyBool False]"

definition MiddleAndLastThirdTerms :: "error + Subterm" where
  "MiddleAndLastThirdTerms = Subterm_init [PyBool False, PyBool True, PyBool True]"

section \<open>Date and Time\<close>

text \<open>
  What \<^verbatim>\<open>dateparser.parse\<close> returns on success: a \<^verbatim>\<open>datetime.datetime\<close>, of which the
  constructors read the five fields below.
\<close>

record datetime =
  dt_year :: int
  dt_month :: int
  dt_day :: int
  dt_hour :: int
  dt_minute :: int

text \<open>
  The parser is a library outside the repository: it is a parameter of the constructors.
  A call of it raises, returns \<^verbatim>\<open>None\<close>, or returns a \<^verbatim>\<open>datetime\<close>.
\<close>

datatype parse_outcome = ParseRaises lib_exn | ParseNone | ParseOk datetime

type_synonym parser = "string \<Rightarrow> parse_outcome"

record Date =
  year :: int
  month :: int
  day :: int

record Time =
  hour :: int
  minute :: int

text \<open>
  \<^verbatim>\<open>Date.__init__\<close>: the \<^verbatim>\<open>try\<close> block turns a \<^verbatim>\<open>None\<close> result into a
  \<^verbatim>\<open>ValueError\<close>, and the handler turns every \<^verbatim>\<open>ValueError\<close> into a
  \<^verbatim>\<open>MaintainerError\<close>. Any other exception of the parser is not caught.
\<close>

definition Date_init :: "parser \<Rightarrow> string \<Rightarrow> error + Date" where
  "Date_init parse s =
     (case parse s of
        ParseRaises ValueError \<Rightarrow> Inl (MaintainerError ''Date got invalid string: {}'')
      | ParseRaises OtherLibraryError \<Rightarrow> Inl (Uncaught OtherLibraryError)
      | ParseNone \<Rightarrow> Inl (MaintainerError ''Date got invalid string: {}'')
      | ParseOk dt \<Rightarrow> Inr \<lparr>year = dt_year dt, month = dt_month dt, day = dt_day dt\<rparr>)"

definition Time_init :: "parser \<Rightarrow> string \<Rightarrow> error + Time" where
  "Time_init parse s =
     (case parse s of
        ParseRaises ValueError \<Rightarrow> Inl (MaintainerError ''Time got invalid string: {}'')
      | ParseRaises OtherLibraryError \<Rightarrow> Inl (Uncaught OtherLibraryError)
      | ParseNone \<Rightarrow> Inl (MaintainerError ''Time got invalid string: {}'')
      | ParseOk dt \<Rightarrow> Inr \<lparr>hour = dt_hour dt, minute = dt_minute dt\<rparr>)"

text \<open>
  Neither class defines a comparison method (\<^verbatim>\<open>__ge__\<close>, \<^verbatim>\<open>__le__\<close>, ...): each has
  \<^verbatim>\<open>__init__\<close> and \<^verbatim>\<open>__str__\<close> only. Python then evaluates \<^verbatim>\<open>a >= b\<close> on two
  instances by raising \<^verbatim>\<open>TypeError\<close>.
\<close>

definition Date_ge :: "Date \<Rightarrow> Date \<Rightarrow> error + bool" where
  "Date_ge a b = Inl (TypeError ''>='')"

definition Time_ge :: "Time \<Rightarrow> Time \<Rightarrow> error + bool" where
  "Time_ge a b = Inl (TypeError ''>='')"

section \<open>Weekdays\<close>

record Weekdays =
  days :: "string set"

definition CHARS :: string where
  "CHARS = ''MTWRFSU''"

text \<open>\<^verbatim>\<open>str.upper\<close> on the ASCII letters.\<close>

definition upper_char :: "char \<Rightarrow> char" where
  "upper_char c =
     (case map_of (zip ''abcdefghijklmnopqrstuvwxyz'' ''ABCDEFGHIJKLMNOPQRSTUVWXYZ'') c of
        Some u \<Rightarrow> u
      | None \<Rightarrow> c)"

definition upper :: "string \<Rightarrow> string" where
  "upper s = map upper_char s"

text \<open>\<^verbatim>\<open>needle in haystack\<close> on two strings: the substring test.\<close>

fun str_contains :: "string \<Rightarrow> string \<Rightarrow> bool" where
  "str_contains [] needle = (needle = [])"
| "str_contains (c # cs) needle =
     (take (length needle) (c # cs) = needle \<or> str_contains cs needle)"

text \<open>
  \<^verbatim>\<open>Weekdays.add_day\<close>. After the validity check the source reads the bare name
  \<^verbatim>\<open>days\<close> (\<^verbatim>\<open>if day in days:\<close>), not \<^verbatim>\<open>self.days\<close>. The name is bound neither
  in the method (its locals are \<^verbatim>\<open>self\<close> and \<^verbatim>\<open>day\<close>), nor at module level, nor
  among the builtins, so evaluating it raises \<^verbatim>\<open>NameError\<close>; the warning and the
  insertion after it are never reached. A successful call would return the updated
  object and the warnings it logged.
\<close>

definition add_day :: "Weekdays \<Rightarrow> string \<Rightarrow> error + Weekdays \<times> string list" where
  "add_day self day_arg =
     (let d = upper day_arg in
      if \<not> str_contains CHARS d then Inl (MaintainerError ''add_day got invalid day: {}'')
      else Inl (NameError ''days''))"

text \<open>
  \<^verbatim>\<open>Weekdays.__init__(self, days=None)\<close>: the iterable \<open>days_arg\<close> is the list of its
  elements; the loop stops at the first exception.
\<close>

fun add_days :: "Weekdays \<Rightarrow> string list \<Rightarrow> error + Weekdays" where
  "add_days self [] = Inr self"
| "add_days self (d # ds) =
     (case add_day self d of Inl e \<Rightarrow> Inl e | Inr (self', _) \<Rightarrow> add_days self' ds)"

definition Weekdays_init :: "string list option \<Rightarrow> error + Weekdays" where
  "Weekdays_init days_arg =
     (case days_arg of
        None \<Rightarrow> Inr \<lparr>days = {}\<rparr>
      | Some ds \<Rightarrow> add_days \<lparr>days = {}\<rparr> ds)"

text \<open>\<^verbatim>\<open>Weekdays.is_empty\<close> returns \<^verbatim>\<open>bool(self.days)\<close>: true for a non-empty set.\<close>

definition is_empty :: "Weekdays \<Rightarrow> bool" where
  "is_empty self = (days self \<noteq> {})"

section \<open>Meeting\<close>

text \<open>The objects a setter can be handed; \<^verbatim>\<open>isinstance\<close> tells them apart.\<close>

datatype pyobj =
    ODate Date
  | OTime Time
  | OWeekdays Weekdays
  | OSubterm Subterm
  | OOther pyval

record Meeting =
  start_date :: "Date option"
  end_date :: "Date option"
  weekdays :: "Weekdays option"
  start_time :: "Time option"
  end_time :: "Time option"
  subterm :: "Subterm option"
  location :: "pyval option"

text \<open>
  A setter mutates the object and may then raise: its result is the object after the
  call together with the exception raised, if any.
\<close>

type_synonym setter_result = "Meeting \<times> error option"

definition check_dates :: "Meeting \<Rightarrow> error option" where
  "check_dates self =
     (case (start_date self, end_date self) of
        (Some s, Some e) \<Rightarrow>
          (case Date_ge s e of
             Inl err \<Rightarrow> Some err
           | Inr b \<Rightarrow>
               if b then Some (MaintainerError ''Meeting start date not before end date: {} >= {}'')
               else None)
      | _ \<Rightarrow> None)"

definition check_times :: "Meeting \<Rightarrow> error option" where
  "check_times self =
     (case (start_time self, end_time self) of
        (Some s, Some e) \<Rightarrow>
          (case Time_ge s e of
             Inl err \<Rightarrow> Some err
           | Inr b \<Rightarrow>
               if b then Some (MaintainerError ''Meeting start time not before end time: {} >= {}'')
               else None)
      | _ \<Rightarrow> None)"

definition set_start_date :: "Meeting \<Rightarrow> pyobj \<Rightarrow> setter_result" where
  "set_start_date self arg =
     (case arg of
        ODate d \<Rightarrow> (let self' = self\<lparr>start_date := Some d\<rparr> in (self', check_dates self'))
      | _ \<Rightarrow> (self, Some (MaintainerError ''set_start_date got non-Date: {}'')))"

definition set_end_date :: "Meeting \<Rightarrow> pyobj \<Rightarrow> setter_result" where
  "set_end_date self arg =
     (case arg of
        ODate d \<Rightarrow> (let self' = self\<lparr>end_date := Some d\<rparr> in (self', check_dates self'))
      | _ \<Rightarrow> (self, Some (MaintainerError ''set_end_date got non-Date: {}'')))"

definition set_weekdays :: "Meeting \<Rightarrow> pyobj \<Rightarrow> setter_result" where
  "set_weekdays self arg =
     (case arg of
        OWeekdays w \<Rightarrow>
          if is_empty w then (self, Some (MaintainerError ''set_weekdays got empty Weekdays''))
          else (self\<lparr>weekdays := Some w\<rparr>, None)
      | _ \<Rightarrow> (self, Some (MaintainerError ''set_weekdays got non-Weekdays: {}'')))"

definition set_start_time :: "Meeting \<Rightarrow> pyobj \<Rightarrow> setter_result" where
  "set_start_time self arg =
     (case arg of
        OTime t \<Rightarrow> (let self' = self\<lparr>start_time := Some t\<rparr> in (self', check_times self'))
      | _ \<Rightarrow> (self, Some (MaintainerError ''set_start_time got non-Time: {}'')))"

definition set_end_time :: "Meeting \<Rightarrow> pyobj \<Rightarrow> setter_result" where
  "set_end_time self arg =
     (case arg of
        OTime t \<Rightarrow> (let self' = self\<lparr>end_time := Some t\<rparr> in (self', check_times self'))
      | _ \<Rightarrow> (self, Some (MaintainerError ''set_end_time got non-Time: {}'')))"

definition set_subterm :: "Meeting \<Rightarrow> pyobj \<Rightarrow> setter_result" where
  "set_subterm self arg =
     (case arg of
        OSubterm s \<Rightarrow> (self\<lparr>subterm := Some s\<rparr>, None)
      | _ \<Rightarrow> (self, Some (MaintainerError ''set_subterm got non-Subterm: {}'')))"

text \<open>
  \<^verbatim>\<open>set_location\<close> tests \<^verbatim>\<open>isinstance(location, Location)\<close>; the module binds no
  name \<^verbatim>\<open>Location\<close>, so the test raises \<^verbatim>\<open>NameError\<close> for every argument.
\<close>

definition set_location :: "Meeting \<Rightarrow> pyobj \<Rightarrow> setter_result" where
  "set_location self arg = (self, Some (NameError ''Location''))"

text \<open>Two setter calls in a row: an exception of the first skips the second.\<close>

definition set_dates :: "Meeting \<Rightarrow> pyobj \<Rightarrow> pyobj \<Rightarrow> setter_result" where
  "set_dates self sd ed =
     (case set_start_date self sd of
        (self', Some e) \<Rightarrow> (self', Some e)
      | (self', None) \<Rightarrow> set_end_date self' ed)"

definition set_times :: "Meeting \<Rightarrow> pyobj \<Rightarrow> pyobj \<Rightarrow> setter_result" where
  "set_times self st et =
     (case set_start_time self st of
        (self', Some e) \<Rightarrow> (self', Some e)
      | (self', None) \<Rightarrow> set_end_time self' et)"

definition Meeting_empty :: Meeting where
  "Meeting_empty =
     \<lparr>start_date = None, end_date = None, weekdays = None, start_time = None,
      end_time = None, subterm = None, location = None\<rparr>"

text \<open>
  One step of \<^verbatim>\<open>Meeting.__init__\<close>: a keyword argument that is not \<^verbatim>\<open>None\<close> goes
  to its setter; an exception of the setter leaves the constructor.
\<close>

definition init_step ::
  "(Meeting \<Rightarrow> pyobj \<Rightarrow> setter_result) \<Rightarrow> pyobj option \<Rightarrow> error + Meeting \<Rightarrow> error + Meeting"
where
  "init_step setter arg acc =
     (case acc of
        Inl e \<Rightarrow> Inl e
      | Inr self \<Rightarrow>
          (case arg of
             None \<Rightarrow> Inr self
           | Some v \<Rightarrow>
               (case setter self v of
                  (self', None) \<Rightarrow> Inr self'
                | (_, Some e) \<Rightarrow> Inl e)))"

definition Meeting_init ::
  "pyobj option \<Rightarrow> pyobj option \<Rightarrow> pyobj option \<Rightarrow> pyobj option \<Rightarrow> pyobj option \<Rightarrow>
   pyobj option \<Rightarrow> pyobj option \<Rightarrow> error + Meeting"
where
  "Meeting_init sd ed wd st et sub loc =
     init_step set_location loc
       (init_step set_subterm sub
         (init_step set_end_time et
           (init_step set_start_time st
             (init_step set_weekdays wd
               (init_step set_end_date ed
                 (init_step set_start_date sd (Inr Meeting_empty)))))))"

section \<open>ScraperResult\<close>

text \<open>
  \<^verbatim>\<open>self.courses\<close> is a Python dict: an association list in insertion order, updated
  in place when the key is present and extended at the end when it is not
  (\<open>AList.update\<close>). The messages handed to \<^verbatim>\<open>log.warn\<close> are returned as a list.
\<close>

record ('k, 'c) ScraperResult =
  term' :: "pyval option"
  courses :: "('k \<times> 'c) list"

text \<open>The argument of \<^verbatim>\<open>add_course\<close>: an instance of \<^verbatim>\<open>Course\<close>, or anything else.\<close>

datatype 'c course_arg = IsCourse 'c | NotCourse pyval

text \<open>
  \<^verbatim>\<open>ScraperResult.add_course\<close>. The call \<^verbatim>\<open>course.get_code()\<close> is dispatched on
  the object handed in: it is the parameter \<open>get_code\<close>, which returns the code or
  raises.
\<close>

definition add_course ::
  "('c \<Rightarrow> error + 'k) \<Rightarrow> ('k, 'c) ScraperResult \<Rightarrow> 'c course_arg \<Rightarrow>
   error + ('k, 'c) ScraperResult \<times> string list"
where
  "add_course get_code self course =
     (case course of
        NotCourse v \<Rightarrow> Inl (MaintainerError ''add_course got non-course: {}'')
      | IsCourse c \<Rightarrow>
          (case get_code c of
             Inl e \<Rightarrow> Inl e
           | Inr code \<Rightarrow>
               Inr (self\<lparr>courses := AList.update code c (courses self)\<rparr>,
                    if code \<in> set (map fst (courses self))
                    then [''multiple courses with same code: {}''] else [])))"

text \<open>
  Class \<^verbatim>\<open>Course\<close> as the source has it: the constructor takes twelve keyword
  arguments and stores none of them (its body is a docstring), and the class declares
  no other method. An instance carries no attribute, so \<^verbatim>\<open>course.get_code\<close> on it
  raises \<^verbatim>\<open>AttributeError\<close>.
\<close>

datatype Course = CourseInstance

definition Course_init :: "pyval list \<Rightarrow> Course" where
  "Course_init kwargs = CourseInstance"

definition Course_get_code :: "Course \<Rightarrow> error + 'k" where
  "Course_get_code c = Inl (AttributeError ''get_code'')"

text \<open>
  \<^verbatim>\<open>set_term\<close> tests \<^verbatim>\<open>isinstance(term, Term)\<close>; the module binds no name
  \<^verbatim>\<open>Term\<close>, so the test raises \<^verbatim>\<open>NameError\<close>.
\<close>

definition set_term :: "('k, 'c) ScraperResult \<Rightarrow> pyval \<Rightarrow> error + ('k, 'c) ScraperResult" where
  "set_term self t = Inl (NameError ''Term'')"

text \<open>The loop of the constructor: the first exception leaves it.\<close>

fun add_courses ::
  "('c \<Rightarrow> error + 'k) \<Rightarrow> ('k, 'c) ScraperResult \<Rightarrow> 'c course_arg list \<Rightarrow>
   error + ('k, 'c) ScraperResult \<times> string list"
where
  "add_courses get_code self [] = Inr (self, [])"
| "add_courses get_code self (c # cs) =
     (case add_course get_code self c of
        Inl e \<Rightarrow> Inl e
      | Inr (self', w) \<Rightarrow>
          (case add_courses get_code self' cs of
             Inl e \<Rightarrow> Inl e
           | Inr (self'', ws) \<Rightarrow> Inr (self'', w @ ws)))"

definition ScraperResult_init ::
  "('c \<Rightarrow> error + 'k) \<Rightarrow> pyval option \<Rightarrow> 'c course_arg list option \<Rightarrow>
   error + ('k, 'c) ScraperResult \<times> string list"
where
  "ScraperResult_init get_code term_arg courses_arg =
     (case (case term_arg of
              None \<Rightarrow> Inr \<lparr>term' = None, courses = []\<rparr>
            | Some t \<Rightarrow> set_term \<lparr>term' = None, courses = []\<rparr> t) of
        Inl e \<Rightarrow> Inl e
      | Inr self \<Rightarrow>
          (case courses_arg of
             None \<Rightarrow> Inr (self, [])
           | Some cs \<Rightarrow> add_courses get_code self cs))"

section \<open>The refinement orchestrator\<close>

text \<open>
  The source declares the scraper contract (\<^verbatim>\<open>Scraper.run\<close>, \<^verbatim>\<open>Scraper.refine\<close>) and
  says in the docstring of \<^verbatim>\<open>refine\<close> that the framework calls it before a timeout
  and resumes on the next call; the orchestrator and the checkpoint store themselves are
  not in the source. The definitions of this section follow the spec (sections 4.1 to
  4.3). Course codes are of a linearly ordered type \<open>'k\<close>, courses of a type \<open>'c\<close>.
\<close>

text \<open>
  Modelled from the spec: the result of one \<^verbatim>\<open>refine(course)\<close> call (4.1), which the
  source only declares: it fails, returns \<^verbatim>\<open>None\<close> (no change), or returns a Course.
\<close>

datatype 'c refine_outcome = RefineFails | RefineNone | RefineCourse 'c

text \<open>
  Modelled from the spec: the checkpoint of the checkpoint store (4.2), absent from the
  source: the last snapshot and the set of course codes still pending refinement.
\<close>

record ('k, 'c) Checkpoint =
  snapshot :: "('k, 'c) ScraperResult"
  pending :: "'k set"

text \<open>
  Modelled from the spec: the terminal states of the orchestrator's state machine (4.3),
  absent from the source; \<open>ListingFailed\<close> is the terminal error state of Listing.
\<close>

datatype final_state = Completed | Exhausted | ListingFailed

text \<open>
  Modelled from the spec: what one invocation of the orchestrator (4.3), absent from the
  source, ends with: the terminal state, the result handed to the caller, the codes left
  pending, whether a checkpoint was written, and the store's content afterwards.
\<close>

record ('k, 'c) invocation_result =
  final :: final_state
  returned :: "('k, 'c) ScraperResult option"
  still_pending :: "'k set"
  checkpoint_written :: bool
  store_after :: "('k, 'c) Checkpoint option"

text \<open>
  Modelled from the spec: the Merging state of the orchestrator (4.3, step 2), absent
  from the source. With a checkpoint, a code of the new result that the prior snapshot
  has and that is not pending takes the prior course; codes absent from the new result
  are dropped; a code stays pending when the checkpoint has it pending, and becomes
  pending when it is new. Without a checkpoint every code is new.
\<close>

definition merging ::
  "('k, 'c) Checkpoint option \<Rightarrow> ('k, 'c) ScraperResult \<Rightarrow> ('k, 'c) ScraperResult \<times> 'k set"
where
  "merging cp new =
     (case cp of
        None \<Rightarrow> (new, set (map fst (courses new)))
      | Some ck \<Rightarrow>
          (new\<lparr>courses :=
             map (\<lambda>(k, c).
                    if k \<in> pending ck then (k, c)
                    else (case map_of (courses (snapshot ck)) k of
                            Some prior \<Rightarrow> (k, prior)
                          | None \<Rightarrow> (k, c)))
                 (courses new)\<rparr>,
           set (filter (\<lambda>k. k \<in> pending ck \<or> k \<notin> set (map fst (courses (snapshot ck))))
                  (map fst (courses new)))))"

text \<open>
  Modelled from the spec: one refinement task of the orchestrator (4.3, step 3), absent
  from the source: on success the returned Course is merged (or the course is kept on
  \<^verbatim>\<open>None\<close>) and the code leaves the pending set; on failure the code stays pending.
\<close>

definition refine_task ::
  "('c \<Rightarrow> 'c refine_outcome) \<Rightarrow> 'k \<Rightarrow> ('k, 'c) ScraperResult \<times> 'k set \<Rightarrow>
   ('k, 'c) ScraperResult \<times> 'k set"
where
  "refine_task refine k st =
     (case st of
        (res, pend) \<Rightarrow>
          (case map_of (courses res) k of
             None \<Rightarrow> (res, pend)
           | Some c \<Rightarrow>
               (case refine c of
                  RefineFails \<Rightarrow> (res, pend)
                | RefineNone \<Rightarrow> (res, pend - {k})
                | RefineCourse c' \<Rightarrow>
                    (res\<lparr>courses := AList.update k c' (courses res)\<rparr>, pend - {k}))))"

text \<open>
  Modelled from the spec: the tasks of the orchestrator's worker pool (4.3, step 3, and
  section 5), absent from the source. Each task writes the slot of its own code only, so
  the outcome does not depend on the order of completion; the tasks are run one after
  the other.
\<close>

fun refine_tasks ::
  "('c \<Rightarrow> 'c refine_outcome) \<Rightarrow> 'k list \<Rightarrow> ('k, 'c) ScraperResult \<times> 'k set \<Rightarrow>
   ('k, 'c) ScraperResult \<times> 'k set"
where
  "refine_tasks refine [] st = st"
| "refine_tasks refine (k # ks) st = refine_tasks refine ks (refine_task refine k st)"

text \<open>
  Modelled from the spec: the dispatch order of the orchestrator (4.3, step 3), absent
  from the source: the pending codes, ascending by code.
\<close>

definition dispatch_order :: "('k::linorder, 'c) ScraperResult \<times> 'k set \<Rightarrow> 'k list" where
  "dispatch_order st =
     (case st of
        (res, pend) \<Rightarrow> sort (filter (\<lambda>k. k \<in> pend) (remdups (map fst (courses res)))))"

text \<open>
  Modelled from the spec: the Refining state of the orchestrator (4.3, step 3), absent
  from the source. Once the deadline elapses no new task is dispatched, and the
  dispatched ones finish: the tasks that run are the first \<open>n\<close> of the dispatch order,
  where \<open>n\<close> is the number of dispatches the deadline of this invocation leaves time
  for.
\<close>

definition refining ::
  "('c \<Rightarrow> 'c refine_outcome) \<Rightarrow> nat \<Rightarrow> ('k::linorder, 'c) ScraperResult \<times> 'k set \<Rightarrow>
   ('k, 'c) ScraperResult \<times> 'k set"
where
  "refining refine n st = refine_tasks refine (take n (dispatch_order st)) st"

text \<open>
  Modelled from the spec: the Finalizing state of the orchestrator (4.3, step 4), absent
  from the source: with nothing pending the invocation is Completed and writes no
  checkpoint; otherwise it is Exhausted and saves the merged result with the remaining
  pending set. The merged result is returned either way.
\<close>

definition finalizing ::
  "('k, 'c) Checkpoint option \<Rightarrow> ('k, 'c) ScraperResult \<times> 'k set \<Rightarrow> ('k, 'c) invocation_result"
where
  "finalizing store st =
     (case st of
        (res, pend) \<Rightarrow>
          if pend = {} then
            \<lparr>final = Completed, returned = Some res, still_pending = pend,
             checkpoint_written = False, store_after = store\<rparr>
          else
            \<lparr>final = Exhausted, returned = Some res, still_pending = pend,
             checkpoint_written = True,
             store_after = Some \<lparr>snapshot = res, pending = pend\<rparr>\<rparr>)"

text \<open>
  Modelled from the spec: one invocation of the orchestrator (4.3), absent from the
  source. \<open>run\<close> is what the scraper's \<^verbatim>\<open>run()\<close> returned (\<open>None\<close> when it failed: a
  terminal error, nothing persisted), \<open>store\<close> the checkpoint found at entry.
\<close>

definition invocation ::
  "('k::linorder, 'c) ScraperResult option \<Rightarrow> ('c \<Rightarrow> 'c refine_outcome) \<Rightarrow> nat \<Rightarrow>
   ('k, 'c) Checkpoint option \<Rightarrow> ('k, 'c) invocation_result"
where
  "invocation run refine n store =
     (case run of
        None \<Rightarrow>
          \<lparr>final = ListingFailed, returned = None, still_pending = {},
           checkpoint_written = False, store_after = store\<rparr>
      | Some new \<Rightarrow> finalizing store (refining refine n (merging store new)))"

text \<open>The course codes of a result that travels with its pending set.\<close>

definition keys :: "('k, 'c) ScraperResult \<times> 'k set \<Rightarrow> 'k set" where
  "keys st = set (map fst (courses (fst st)))"

section \<open>Properties of Subterm\<close>

lemma py_any_iff: "py_any xs \<longleftrightarrow> (\<exists>x \<in> set xs. truthy x)"
  by (induction xs) auto

text \<open>
  C4. The Subterm constructor succeeds exactly when its argument list is non-empty and
  holds a truthy argument; with no argument, or with falsy arguments only, it fails with
  the library's error (\<open>MaintainerError\<close>, the one exception class of the source).
\<close>

theorem Subterm_init_succeeds_iff:
  "(args \<noteq> [] \<and> (\<exists>a \<in> set args. truthy a) \<longrightarrow>
      Subterm_init args = Inr \<lparr>subterms = map truthy args\<rparr>) \<and>
   (args = [] \<or> (\<forall>a \<in> set args. \<not> truthy a) \<longrightarrow>
      (\<exists>msg. Subterm_init args = Inl (MaintainerError msg)))"
  by (auto simp: Subterm_init_def py_any_iff)

theorem Subterm_init_succeeds_iff_witness:
  "Subterm_init [PyBool False, PyInt 2] = Inr \<lparr>subterms = [False, True]\<rparr> \<and>
   (\<exists>msg. Subterm_init [] = Inl (MaintainerError msg)) \<and>
   (\<exists>msg. Subterm_init [PyBool False, PyInt 0, PyStr []] = Inl (MaintainerError msg))"
  using Subterm_init_succeeds_iff [of "[PyBool False, PyInt 2]"]
    Subterm_init_succeeds_iff [of "[]"]
    Subterm_init_succeeds_iff [of "[PyBool False, PyInt 0, PyStr []]"]
  by simp

text \<open>
  C8. The named constants are built by the general constructor from the advertised
  slots: each construction succeeds and stores exactly those slots.
\<close>

theorem named_subterm_constants:
  "FullTerm = Subterm_init [PyBool True] \<and> FullTerm = Inr \<lparr>subterms = [True]\<rparr> \<and>
   FirstHalfTerm = Inr \<lparr>subterms = [True, False]\<rparr> \<and>
   SecondHalfTerm = Inr \<lparr>subterms = [False, True]\<rparr> \<and>
   FirstThirdTerm = Inr \<lparr>subterms = [True, False, False]\<rparr> \<and>
   MiddleThirdTerm = Inr \<lparr>subterms = [False, True, False]\<rparr> \<and>
   LastThirdTerm = Inr \<lparr>subterms = [False, False, True]\<rparr> \<and>
   FirstAndMiddleThirdTerms = Inr \<lparr>subterms = [True, True, False]\<rparr> \<and>
   MiddleAndLastThirdTerms = Inr \<lparr>subterms = [False, True, True]\<rparr>"
  by (simp add: FullTerm_def FirstHalfTerm_def SecondHalfTerm_def FirstThirdTerm_def
      MiddleThirdTerm_def LastThirdTerm_def FirstAndMiddleThirdTerms_def
      MiddleAndLastThirdTerms_def Subterm_init_def)

text \<open>
  C9. After a successful construction the stored tuple has the length of the argument
  list, and its element at every position is the boolean coercion of the argument at
  that position.
\<close>

theorem Subterm_init_stores_coerced:
  assumes "Subterm_init args = Inr s"
  shows "length (subterms s) = length args \<and>
         (\<forall>i < length args. subterms s ! i = truthy (args ! i)) \<and>
         subterms s = map truthy args"
  using assms by (auto simp: Subterm_init_def split: if_splits)

theorem Subterm_init_stores_coerced_witness:
  "Subterm_init [PyInt 3, PyStr [], PyNone, PyStr ''x''] =
     Inr \<lparr>subterms = [True, False, False, True]\<rparr> \<and>
   length (subterms \<lparr>subterms = [True, False, False, True]\<rparr>) =
     length [PyInt 3, PyStr [], PyNone, PyStr ''x'']"
proof -
  have h: "Subterm_init [PyInt 3, PyStr [], PyNone, PyStr ''x''] =
      Inr \<lparr>subterms = [True, False, False, True]\<rparr>"
    by (simp add: Subterm_init_def)
  from Subterm_init_stores_coerced [OF h] h show ?thesis by simp
qed

section \<open>Properties of Date and Time\<close>

text \<open>
  C5. Constructing a Date or a Time from a string fails with the library's error
  (\<open>MaintainerError\<close>, the spec's ParseError) exactly when the parser returns nothing or
  rejects the string with \<^verbatim>\<open>ValueError\<close>; when the parser returns a value, the
  construction succeeds and carries the parsed fields. The constructors are functions of
  the parser and the string alone: a failure is their result and touches nothing else.
\<close>

theorem Date_Time_init_fails_iff:
  "((\<exists>msg. Date_init parse s = Inl (MaintainerError msg)) \<longleftrightarrow>
      (parse s = ParseNone \<or> parse s = ParseRaises ValueError)) \<and>
   ((\<exists>msg. Time_init parse s = Inl (MaintainerError msg)) \<longleftrightarrow>
      (parse s = ParseNone \<or> parse s = ParseRaises ValueError)) \<and>
   (parse s = ParseOk dt \<longrightarrow>
      Date_init parse s = Inr \<lparr>year = dt_year dt, month = dt_month dt, day = dt_day dt\<rparr> \<and>
      Time_init parse s = Inr \<lparr>hour = dt_hour dt, minute = dt_minute dt\<rparr>)"
  by (auto simp: Date_init_def Time_init_def split: parse_outcome.splits lib_exn.splits)

theorem Date_Time_init_fails_iff_witness:
  "Date_init (\<lambda>s. if s = ''2020-01-15 09:30''
                   then ParseOk \<lparr>dt_year = 2020, dt_month = 1, dt_day = 15, dt_hour = 9, dt_minute = 30\<rparr>
                   else ParseNone) ''2020-01-15 09:30'' =
     Inr \<lparr>year = 2020, month = 1, day = 15\<rparr> \<and>
   Time_init (\<lambda>s. if s = ''2020-01-15 09:30''
                   then ParseOk \<lparr>dt_year = 2020, dt_month = 1, dt_day = 15, dt_hour = 9, dt_minute = 30\<rparr>
                   else ParseNone) ''2020-01-15 09:30'' =
     Inr \<lparr>hour = 9, minute = 30\<rparr> \<and>
   (\<exists>msg. Date_init (\<lambda>s. if s = ''2020-01-15 09:30''
                   then ParseOk \<lparr>dt_year = 2020, dt_month = 1, dt_day = 15, dt_hour = 9, dt_minute = 30\<rparr>
                   else ParseNone) ''???'' = Inl (MaintainerError msg))"
  using Date_Time_init_fails_iff
    [of "\<lambda>s. if s = ''2020-01-15 09:30''
              then ParseOk \<lparr>dt_year = 2020, dt_month = 1, dt_day = 15, dt_hour = 9, dt_minute = 30\<rparr>
              else ParseNone"
        "''2020-01-15 09:30''"
        "\<lparr>dt_year = 2020, dt_month = 1, dt_day = 15, dt_hour = 9, dt_minute = 30\<rparr>"]
    Date_Time_init_fails_iff
    [of "\<lambda>s. if s = ''2020-01-15 09:30''
              then ParseOk \<lparr>dt_year = 2020, dt_month = 1, dt_day = 15, dt_hour = 9, dt_minute = 30\<rparr>
              else ParseNone"
        "''???''"]
  by simp

section \<open>Properties of Weekdays\<close>

lemma add_day_never_succeeds: "add_day self d \<noteq> Inr r"
  by (simp add: add_day_def Let_def)

lemma upper_M: "upper ''M'' = ''M''"
  by (simp add: upper_def upper_char_def)

lemma CHARS_contains_M: "str_contains CHARS ''M''"
  by (simp add: CHARS_def)

text \<open>
  C2 (the code departs from the claim). Adding the valid day \<^verbatim>\<open>"M"\<close> to a fresh,
  empty \<^verbatim>\<open>Weekdays\<close> raises \<^verbatim>\<open>NameError\<close>: the first add already fails, so there is
  no second add, no warning and no set of the same size. The constructor fails the same
  way on \<^verbatim>\<open>Weekdays("MWF")\<close>.
\<close>

theorem add_day_raises_NameError:
  "add_day \<lparr>days = {}\<rparr> ''M'' = Inl (NameError ''days'') \<and>
   Weekdays_init (Some [''M'', ''W'', ''F'']) = Inl (NameError ''days'')"
  by (simp add: add_day_def Weekdays_init_def Let_def upper_M CHARS_contains_M)

section \<open>Properties of Meeting\<close>

text \<open>
  Whatever the two dates (or times) are, the setter that completes the pair stores its
  argument and raises \<^verbatim>\<open>TypeError\<close>; with one endpoint only, a setter returns
  normally.
\<close>

lemma set_end_date_completes_pair:
  "start_date self = Some s \<Longrightarrow>
   set_end_date self (ODate e) = (self\<lparr>end_date := Some e\<rparr>, Some (TypeError ''>=''))"
  by (simp add: set_end_date_def check_dates_def Date_ge_def Let_def)

lemma set_start_date_completes_pair:
  "end_date self = Some e \<Longrightarrow>
   set_start_date self (ODate s) = (self\<lparr>start_date := Some s\<rparr>, Some (TypeError ''>=''))"
  by (simp add: set_start_date_def check_dates_def Date_ge_def Let_def)

lemma set_end_time_completes_pair:
  "start_time self = Some s \<Longrightarrow>
   set_end_time self (OTime e) = (self\<lparr>end_time := Some e\<rparr>, Some (TypeError ''>=''))"
  by (simp add: set_end_time_def check_times_def Time_ge_def Let_def)

lemma set_start_time_completes_pair:
  "end_time self = Some e \<Longrightarrow>
   set_start_time self (OTime s) = (self\<lparr>start_time := Some s\<rparr>, Some (TypeError ''>=''))"
  by (simp add: set_start_time_def check_times_def Time_ge_def Let_def)

lemma set_start_date_first_endpoint:
  "end_date self = None \<Longrightarrow>
   set_start_date self (ODate s) = (self\<lparr>start_date := Some s\<rparr>, None)"
  by (simp add: set_start_date_def check_dates_def Let_def split: option.splits)

text \<open>
  C1 (the code departs from the claim). With a start date already stored, storing an
  end date that lies after it raises \<^verbatim>\<open>TypeError\<close>, since the comparison of two
  \<^verbatim>\<open>Date\<close> objects is not defined; the constructor fails the same way on a valid pair
  of dates, and the same holds for times. An inverted pair raises \<^verbatim>\<open>TypeError\<close> as
  well, not the library's error, and the setter has stored the value before it raises.
\<close>

theorem Meeting_ordering_check_raises_TypeError:
  "set_end_date (fst (set_start_date Meeting_empty (ODate \<lparr>year = 2020, month = 1, day = 1\<rparr>)))
       (ODate \<lparr>year = 2020, month = 2, day = 1\<rparr>) =
     (Meeting_empty\<lparr>start_date := Some \<lparr>year = 2020, month = 1, day = 1\<rparr>,
                    end_date := Some \<lparr>year = 2020, month = 2, day = 1\<rparr>\<rparr>,
      Some (TypeError ''>='')) \<and>
   Meeting_init (Some (ODate \<lparr>year = 2020, month = 1, day = 1\<rparr>))
       (Some (ODate \<lparr>year = 2020, month = 2, day = 1\<rparr>)) None None None None None =
     Inl (TypeError ''>='') \<and>
   set_times Meeting_empty (OTime \<lparr>hour = 9, minute = 0\<rparr>) (OTime \<lparr>hour = 10, minute = 0\<rparr>) =
     (Meeting_empty\<lparr>start_time := Some \<lparr>hour = 9, minute = 0\<rparr>,
                    end_time := Some \<lparr>hour = 10, minute = 0\<rparr>\<rparr>,
      Some (TypeError ''>='')) \<and>
   set_dates Meeting_empty (ODate \<lparr>year = 2020, month = 2, day = 1\<rparr>)
       (ODate \<lparr>year = 2020, month = 1, day = 1\<rparr>) =
     (Meeting_empty\<lparr>start_date := Some \<lparr>year = 2020, month = 2, day = 1\<rparr>,
                    end_date := Some \<lparr>year = 2020, month = 1, day = 1\<rparr>\<rparr>,
      Some (TypeError ''>=''))"
  by (simp add: set_end_date_def set_start_date_def set_dates_def set_times_def
      set_start_time_def set_end_time_def check_dates_def check_times_def Date_ge_def
      Time_ge_def Meeting_init_def init_step_def Meeting_empty_def Let_def)

text \<open>
  C3 (the code departs from the claim). \<^verbatim>\<open>is_empty\<close> answers true for a non-empty
  set, so \<^verbatim>\<open>set_weekdays\<close> stores the empty \<^verbatim>\<open>Weekdays()\<close> without an error and
  rejects a non-empty one with the message for an empty one.
\<close>

theorem set_weekdays_accepts_empty:
  "Weekdays_init None = Inr \<lparr>days = {}\<rparr> \<and>
   set_weekdays Meeting_empty (OWeekdays \<lparr>days = {}\<rparr>) =
     (Meeting_empty\<lparr>weekdays := Some \<lparr>days = {}\<rparr>\<rparr>, None) \<and>
   set_weekdays Meeting_empty (OWeekdays \<lparr>days = {''M''}\<rparr>) =
     (Meeting_empty, Some (MaintainerError ''set_weekdays got empty Weekdays''))"
  by (simp add: Weekdays_init_def set_weekdays_def is_empty_def)

text \<open>
  C10. \<^verbatim>\<open>set_subterm\<close> with a \<^verbatim>\<open>Subterm\<close> argument raises nothing, stores the
  argument in the subterm field and leaves the six other fields as they were; it runs
  neither ordering check.
\<close>

theorem set_subterm_frame:
  "set_subterm self (OSubterm s) = (self\<lparr>subterm := Some s\<rparr>, None) \<and>
   snd (set_subterm self (OSubterm s)) = None \<and>
   subterm (fst (set_subterm self (OSubterm s))) = Some s \<and>
   start_date (fst (set_subterm self (OSubterm s))) = start_date self \<and>
   end_date (fst (set_subterm self (OSubterm s))) = end_date self \<and>
   weekdays (fst (set_subterm self (OSubterm s))) = weekdays self \<and>
   start_time (fst (set_subterm self (OSubterm s))) = start_time self \<and>
   end_time (fst (set_subterm self (OSubterm s))) = end_time self \<and>
   location (fst (set_subterm self (OSubterm s))) = location self"
  by (simp add: set_subterm_def)

text \<open>
  At a Meeting holding both dates and both times, where either ordering check raises,
  \<^verbatim>\<open>set_subterm\<close> still returns normally.
\<close>

theorem set_subterm_frame_witness:
  "check_dates (Meeting_empty\<lparr>start_date := Some \<lparr>year = 2020, month = 2, day = 1\<rparr>,
                              end_date := Some \<lparr>year = 2020, month = 1, day = 1\<rparr>\<rparr>) =
     Some (TypeError ''>='') \<and>
   set_subterm (Meeting_empty\<lparr>start_date := Some \<lparr>year = 2020, month = 2, day = 1\<rparr>,
                              end_date := Some \<lparr>year = 2020, month = 1, day = 1\<rparr>\<rparr>)
       (OSubterm \<lparr>subterms = [True, False]\<rparr>) =
     (Meeting_empty\<lparr>start_date := Some \<lparr>year = 2020, month = 2, day = 1\<rparr>,
                    end_date := Some \<lparr>year = 2020, month = 1, day = 1\<rparr>,
                    subterm := Some \<lparr>subterms = [True, False]\<rparr>\<rparr>, None)"
  using set_subterm_frame
    [of "Meeting_empty\<lparr>start_date := Some \<lparr>year = 2020, month = 2, day = 1\<rparr>,
                       end_date := Some \<lparr>year = 2020, month = 1, day = 1\<rparr>\<rparr>"
        "\<lparr>subterms = [True, False]\<rparr>"]
  by (simp add: check_dates_def Date_ge_def Meeting_empty_def)

section \<open>Properties of ScraperResult\<close>

lemma add_course_distinct:
  assumes "add_course get_code r a = Inr (r', w)" and "distinct (map fst (courses r))"
  shows "distinct (map fst (courses r'))"
  using assms
  by (auto simp: add_course_def distinct_update split: course_arg.splits sum.splits)

lemma add_courses_distinct:
  "add_courses get_code r cs = Inr (r', w) \<Longrightarrow> distinct (map fst (courses r)) \<Longrightarrow>
   distinct (map fst (courses r'))"
proof (induction cs arbitrary: r r' w)
  case Nil
  then show ?case by simp
next
  case (Cons c cs)
  from Cons.prems(1) obtain r1 w1 ws where
    step: "add_course get_code r c = Inr (r1, w1)" and
    rest: "add_courses get_code r1 cs = Inr (r', ws)"
    by (auto split: sum.splits prod.splits)
  from add_course_distinct [OF step Cons.prems(2)] have "distinct (map fst (courses r1))" .
  with Cons.IH [OF rest] show ?case .
qed

text \<open>
  C6 (the code departs from the claim). Adding an instance of class \<^verbatim>\<open>Course\<close> to an
  empty result raises \<^verbatim>\<open>AttributeError\<close>: the class has no \<^verbatim>\<open>get_code\<close>, so the
  Course is never filed under its code. The constructor of the result fails the same
  way on a list of one Course.
\<close>

theorem add_course_raises_AttributeError:
  "add_course Course_get_code (\<lparr>term' = None, courses = []\<rparr> :: (string, Course) ScraperResult)
       (IsCourse (Course_init [PyStr ''CS 5''])) =
     Inl (AttributeError ''get_code'') \<and>
   (ScraperResult_init Course_get_code None (Some [IsCourse (Course_init [PyStr ''CS 5''])])
      :: error + (string, Course) ScraperResult \<times> string list) =
     Inl (AttributeError ''get_code'')"
  by (simp add: add_course_def Course_get_code_def ScraperResult_init_def)

text \<open>
  The dictionary logic of \<^verbatim>\<open>add_course\<close>, for an object that does provide the
  method: when \<^verbatim>\<open>get_code\<close> returns the code \<open>k\<close>, \<^verbatim>\<open>add_course\<close>
  succeeds and files the object under \<open>k\<close>, whatever was filed there before (last write
  wins); every other key keeps its entry and the term is untouched; unique keys stay
  unique; the call logs the collision warning exactly when \<open>k\<close> was already a key.
  Starting from the empty result, every sequence of successful adds ends with unique
  keys.
\<close>

theorem add_course_keyed_by_code:
  "(get_code c = Inr k \<longrightarrow>
      (\<exists>r' w. add_course get_code r (IsCourse c) = Inr (r', w) \<and>
         courses r' = AList.update k c (courses r) \<and>
         map_of (courses r') k = Some c \<and>
         (\<forall>k'. k' \<noteq> k \<longrightarrow> map_of (courses r') k' = map_of (courses r) k') \<and>
         set (map fst (courses r')) = insert k (set (map fst (courses r))) \<and>
         (distinct (map fst (courses r)) \<longrightarrow> distinct (map fst (courses r'))) \<and>
         term' r' = term' r \<and>
         w = (if k \<in> set (map fst (courses r))
              then [''multiple courses with same code: {}''] else []))) \<and>
   (add_courses get_code \<lparr>term' = None, courses = []\<rparr> cs = Inr (rs, ws) \<longrightarrow>
      distinct (map fst (courses rs)))"
proof (intro conjI impI)
  assume code: "get_code c = Inr k"
  let ?r' = "r\<lparr>courses := AList.update k c (courses r)\<rparr>"
  let ?w = "if k \<in> set (map fst (courses r))
            then [''multiple courses with same code: {}''] else []"
  have call: "add_course get_code r (IsCourse c) = Inr (?r', ?w)"
    using code by (simp add: add_course_def)
  have look: "map_of (courses ?r') k = Some c"
    by (simp add: update_conv')
  have others: "\<forall>k'. k' \<noteq> k \<longrightarrow> map_of (courses ?r') k' = map_of (courses r) k'"
    by (simp add: update_conv')
  have keys: "set (map fst (courses ?r')) = insert k (set (map fst (courses r)))"
    by (simp add: dom_update)
  have uniq: "distinct (map fst (courses r)) \<longrightarrow> distinct (map fst (courses ?r'))"
    by (simp add: distinct_update)
  show "\<exists>r' w. add_course get_code r (IsCourse c) = Inr (r', w) \<and>
         courses r' = AList.update k c (courses r) \<and>
         map_of (courses r') k = Some c \<and>
         (\<forall>k'. k' \<noteq> k \<longrightarrow> map_of (courses r') k' = map_of (courses r) k') \<and>
         set (map fst (courses r')) = insert k (set (map fst (courses r))) \<and>
         (distinct (map fst (courses r)) \<longrightarrow> distinct (map fst (courses r'))) \<and>
         term' r' = term' r \<and>
         w = (if k \<in> set (map fst (courses r))
              then [''multiple courses with same code: {}''] else [])"
    using call look others keys uniq
    by (intro exI [of _ ?r'] exI [of _ ?w]) simp
next
  assume "add_courses get_code \<lparr>term' = None, courses = []\<rparr> cs = Inr (rs, ws)"
  from add_courses_distinct [OF this] show "distinct (map fst (courses rs))"
    by simp
qed

text \<open>
  Two Courses with the code 7 and one with the code 3, the code read off the first
  component: the second Course with code 7 replaces the first, in its place, and the
  warning is logged once.
\<close>

theorem add_course_keyed_by_code_witness:
  "add_courses (\<lambda>c. Inr (fst c)) \<lparr>term' = None, courses = []\<rparr>
       [IsCourse (7::nat, ''old''), IsCourse (3, ''other''), IsCourse (7, ''new'')] =
     Inr (\<lparr>term' = None, courses = [(7, (7, ''new'')), (3, (3, ''other''))]\<rparr>,
          [''multiple courses with same code: {}'']) \<and>
   distinct (map fst [(7::nat, (7::nat, ''new'')), (3, (3, ''other''))]) \<and>
   add_course (\<lambda>c. Inr (fst c)) \<lparr>term' = None, courses = [(7::nat, (7::nat, ''old''))]\<rparr>
       (IsCourse (7, ''new'')) =
     Inr (\<lparr>term' = None, courses = [(7, (7, ''new''))]\<rparr>,
          [''multiple courses with same code: {}''])"
  using add_course_keyed_by_code
    [of "\<lambda>c. Inr (fst c)" "(7::nat, ''new'')" 7
        "\<lparr>term' = None, courses = [(7::nat, (7::nat, ''old''))]\<rparr>"
        "[IsCourse (7::nat, ''old''), IsCourse (3, ''other''), IsCourse (7, ''new'')]"
        "\<lparr>term' = None, courses = [(7, (7, ''new'')), (3, (3, ''other''))]\<rparr>"
        "[''multiple courses with same code: {}'']"]
  by (simp add: add_course_def)

section \<open>Properties of the orchestrator\<close>

lemma refine_task_keys: "keys (refine_task refine k st) = keys st"
  by (cases st)
    (force simp: refine_task_def keys_def dom_update dest: map_of_SomeD
      split: option.splits refine_outcome.splits)

lemma refine_task_pending:
  assumes "\<forall>c. refine c \<noteq> RefineFails" and "k \<in> keys st"
  shows "snd (refine_task refine k st) = snd st - {k}"
proof (cases st)
  case (Pair res pend)
  with assms(2) obtain c where "map_of (courses res) k = Some c"
    by (auto simp: keys_def) (metis map_of_eq_None_iff not_Some_eq fst_conv image_eqI)
  with Pair assms(1) show ?thesis
    by (cases "refine c") (auto simp: refine_task_def)
qed

lemma refine_tasks_pending:
  "\<forall>c. refine c \<noteq> RefineFails \<Longrightarrow> set ks \<subseteq> keys st \<Longrightarrow>
   snd (refine_tasks refine ks st) = snd st - set ks"
proof (induction ks arbitrary: st)
  case Nil
  then show ?case by simp
next
  case (Cons k ks)
  have "snd (refine_tasks refine ks (refine_task refine k st)) =
        snd (refine_task refine k st) - set ks"
    using Cons.prems by (intro Cons.IH) (simp_all add: refine_task_keys)
  also have "snd (refine_task refine k st) = snd st - {k}"
    using Cons.prems by (intro refine_task_pending) simp_all
  finally show ?case by auto
qed

lemma merging_keys: "map fst (courses (fst (merging store new))) = map fst (courses new)"
  by (cases store) (auto simp: merging_def split: option.splits)

lemma merging_pending_keys: "snd (merging store new) \<subseteq> keys (merging store new)"
  unfolding keys_def merging_keys by (cases store) (auto simp: merging_def)

lemma set_dispatch_order: "snd st \<subseteq> keys st \<Longrightarrow> set (dispatch_order st) = snd st"
  by (cases st) (auto simp: dispatch_order_def keys_def)

lemma refining_all:
  assumes "\<forall>c. refine c \<noteq> RefineFails" and "snd st \<subseteq> keys st"
    and "length (dispatch_order st) \<le> n"
  shows "snd (refining refine n st) = {}"
proof -
  have "snd (refine_tasks refine (dispatch_order st) st) = snd st - set (dispatch_order st)"
    using assms(1,2) by (intro refine_tasks_pending) (simp_all add: set_dispatch_order)
  with assms show ?thesis
    by (simp add: refining_def set_dispatch_order)
qed

lemma invocation_completes:
  assumes "\<forall>c. refine c \<noteq> RefineFails"
    and "length (dispatch_order (merging store new)) \<le> n"
  shows "final (invocation (Some new) refine n store) = Completed \<and>
         still_pending (invocation (Some new) refine n store) = {} \<and>
         \<not> checkpoint_written (invocation (Some new) refine n store)"
proof -
  have "snd (refining refine n (merging store new)) = {}"
    using assms by (intro refining_all merging_pending_keys)
  then show ?thesis
    by (cases "refining refine n (merging store new)") (simp add: invocation_def finalizing_def)
qed

text \<open>
  C7, as stated, fails on the orchestrator of the spec. Two courses, a \<^verbatim>\<open>refine\<close>
  that always succeeds; the first invocation dispatches both and is Completed, the
  deadline of the second invocation leaves time for one dispatch only: the second
  invocation ends Exhausted with course 2 pending and writes a checkpoint.
\<close>

theorem second_invocation_counterexample:
  "still_pending
     (invocation (Some \<lparr>term' = None, courses = [(1::nat, ''a''), (2, ''b'')]\<rparr>)
        (\<lambda>c. RefineNone) 1
        (store_after
           (invocation (Some \<lparr>term' = None, courses = [(1::nat, ''a''), (2, ''b'')]\<rparr>)
              (\<lambda>c. RefineNone) 2 None))) = {2} \<and>
   checkpoint_written
     (invocation (Some \<lparr>term' = None, courses = [(1::nat, ''a''), (2, ''b'')]\<rparr>)
        (\<lambda>c. RefineNone) 1
        (store_after
           (invocation (Some \<lparr>term' = None, courses = [(1::nat, ''a''), (2, ''b'')]\<rparr>)
              (\<lambda>c. RefineNone) 2 None))) \<and>
   final
     (invocation (Some \<lparr>term' = None, courses = [(1::nat, ''a''), (2, ''b'')]\<rparr>)
        (\<lambda>c. RefineNone) 1
        (store_after
           (invocation (Some \<lparr>term' = None, courses = [(1::nat, ''a''), (2, ''b'')]\<rparr>)
              (\<lambda>c. RefineNone) 2 None))) = Exhausted"
  by (simp add: invocation_def finalizing_def refining_def merging_def dispatch_order_def
      refine_task_def)

text \<open>
  C7, amended. Two invocations in a row, the second starting from the store the first
  left, with a \<^verbatim>\<open>refine\<close> that always succeeds: if the deadline of the second
  invocation leaves time to dispatch every course pending after its merge, the second
  invocation ends Completed with an empty pending set and writes no checkpoint.
\<close>

theorem second_invocation_completes:
  assumes "\<forall>c. refine c \<noteq> RefineFails"
    and "store1 = store_after (invocation run1 refine n1 store0)"
    and "length (dispatch_order (merging store1 new2)) \<le> n2"
  shows "final (invocation (Some new2) refine n2 store1) = Completed \<and>
         still_pending (invocation (Some new2) refine n2 store1) = {} \<and>
         \<not> checkpoint_written (invocation (Some new2) refine n2 store1)"
  using assms(1,3) by (rule invocation_completes)

text \<open>
  The first invocation has time for one of two courses and leaves a checkpoint with
  course 2 pending; the second has time for one course, which is all that is pending
  after its merge, and is Completed.
\<close>

theorem second_invocation_completes_witness:
  "store_after
     (invocation (Some \<lparr>term' = None, courses = [(1::nat, ''a''), (2, ''b'')]\<rparr>)
        (\<lambda>c. RefineCourse (c @ ''+'')) 1 None) =
     Some \<lparr>snapshot = \<lparr>term' = None, courses = [(1, ''a+''), (2, ''b'')]\<rparr>, pending = {2}\<rparr> \<and>
   final
     (invocation (Some \<lparr>term' = None, courses = [(1::nat, ''a''), (2, ''b'')]\<rparr>)
        (\<lambda>c. RefineCourse (c @ ''+'')) 1
        (Some \<lparr>snapshot = \<lparr>term' = None, courses = [(1, ''a+''), (2, ''b'')]\<rparr>,
               pending = {2}\<rparr>)) = Completed \<and>
   still_pending
     (invocation (Some \<lparr>term' = None, courses = [(1::nat, ''a''), (2, ''b'')]\<rparr>)
        (\<lambda>c. RefineCourse (c @ ''+'')) 1
        (Some \<lparr>snapshot = \<lparr>term' = None, courses = [(1, ''a+''), (2, ''b'')]\<rparr>,
               pending = {2}\<rparr>)) = {} \<and>
   \<not> checkpoint_written
     (invocation (Some \<lparr>term' = None, courses = [(1::nat, ''a''), (2, ''b'')]\<rparr>)
        (\<lambda>c. RefineCourse (c @ ''+'')) 1
        (Some \<lparr>snapshot = \<lparr>term' = None, courses = [(1, ''a+''), (2, ''b'')]\<rparr>,
               pending = {2}\<rparr>))"
proof -
  let ?new = "\<lparr>term' = None, courses = [(1::nat, ''a''), (2, ''b'')]\<rparr>"
  let ?refine = "\<lambda>c::string. RefineCourse (c @ ''+'')"
  let ?store1 = "Some \<lparr>snapshot = \<lparr>term' = None, courses = [(1::nat, ''a+''), (2, ''b'')]\<rparr>,
                       pending = {2}\<rparr>"
  have always: "\<forall>c. ?refine c \<noteq> RefineFails"
    by simp
  have first: "?store1 = store_after (invocation (Some ?new) ?refine 1 None)"
    by (simp add: invocation_def finalizing_def refining_def merging_def dispatch_order_def
        refine_task_def)
  have time: "length (dispatch_order (merging ?store1 ?new)) \<le> 1"
    by (simp add: merging_def dispatch_order_def)
  from second_invocation_completes [OF always first time] first show ?thesis
    by simp
qed

end
